theory Spec2Isabelle
  imports Main
begin

section \<open>JavaScript values\<close>

text \<open>
  The controller \<^verbatim>\<open>src/controller/admin/metalController.js\<close> handles request bodies, route
  parameters and collaborator results as untyped JavaScript values. An object is a finite
  map from property names to values; an array is a list. Numbers are modelled as integers:
  the controller does no arithmetic, it only tests numbers for truthiness and compares an
  array length with 1, so fractional numbers and NaN are not represented. \<open>JFun n\<close> is a
  function value of arity \<open>n\<close> (it has no own enumerable property).
\<close>

datatype jsval =
    JUndefined
  | JNull
  | JBool bool
  | JNum int
  | JStr string
  | JArr "jsval list"
  | JObj "string \<Rightarrow> jsval option"
  | JFun nat

text \<open>
  A thrown value is an error object with a message. \<open>TypeError\<close> is what the engine throws
  for a property read on \<^verbatim>\<open>undefined\<close>/\<^verbatim>\<open>null\<close> or for spreading a non-iterable; \<open>Error\<close>
  is one thrown by a collaborator. Both carry the text that \<^verbatim>\<open>error.message\<close> reads.
\<close>

datatype js_error = TypeError string | Error string

fun message :: "js_error \<Rightarrow> string" where
  "message (TypeError m) = m"
| "message (Error m) = m"

text \<open>Truthiness, as \<^verbatim>\<open>if (x)\<close>, \<^verbatim>\<open>!x\<close>, \<^verbatim>\<open>x && y\<close>, \<^verbatim>\<open>x || y\<close> and \<^verbatim>\<open>x ? a : b\<close> test it.\<close>

fun truthy :: "jsval \<Rightarrow> bool" where
  "truthy JUndefined = False"
| "truthy JNull = False"
| "truthy (JBool b) = b"
| "truthy (JNum n) = (n \<noteq> 0)"
| "truthy (JStr s) = (s \<noteq> [])"
| "truthy (JArr xs) = True"
| "truthy (JObj m) = True"
| "truthy (JFun n) = True"

text \<open>\<^verbatim>\<open>a || b\<close>\<close>

definition or_else :: "jsval \<Rightarrow> jsval \<Rightarrow> jsval" where
  "or_else a b = (if truthy a then a else b)"

text \<open>\<^verbatim>\<open>typeof x === 'object' && x !== null\<close>\<close>

fun is_object :: "jsval \<Rightarrow> bool" where
  "is_object (JObj m) = True"
| "is_object (JArr xs) = True"
| "is_object v = False"

text \<open>\<^verbatim>\<open>Array.isArray(x)\<close>\<close>

fun isArray :: "jsval \<Rightarrow> bool" where
  "isArray (JArr xs) = True"
| "isArray v = False"

text \<open>The property name of an array index: its decimal rendering.\<close>

definition digit_char :: "nat \<Rightarrow> char" where
  "digit_char d = ''0123456789'' ! d"

fun index_key :: "nat \<Rightarrow> string" where
  "index_key n =
     (if n < 10 then [digit_char n] else index_key (n div 10) @ [digit_char (n mod 10)])"

declare index_key.simps [simp del]

definition index_props :: "jsval list \<Rightarrow> string \<Rightarrow> jsval option" where
  "index_props xs = map_of (zip (map index_key [0..<length xs]) xs)"

text \<open>
  The own enumerable properties of a value, which is what the object spread
  \<^verbatim>\<open>{ ...x }\<close> copies: those of an object, the indexed elements of an array, the
  indexed characters of a string, nothing for any other value (for \<^verbatim>\<open>undefined\<close> and
  \<^verbatim>\<open>null\<close> too: object spread does not throw).
\<close>

fun own_props :: "jsval \<Rightarrow> string \<Rightarrow> jsval option" where
  "own_props (JObj m) = m"
| "own_props (JArr xs) = index_props xs"
| "own_props (JStr s) = index_props (map (\<lambda>c. JStr [c]) s)"
| "own_props v = Map.empty"

text \<open>
  The property read \<^verbatim>\<open>x.p\<close>. It throws on \<^verbatim>\<open>undefined\<close> and \<^verbatim>\<open>null\<close>. Of the inherited
  properties only those the controller can reach by the names it reads are modelled:
  \<^verbatim>\<open>length\<close> of arrays, strings and functions, and \<^verbatim>\<open>Array.prototype.filter\<close> (a function
  of arity 1), which \<^verbatim>\<open>req.body.filter\<close> finds when the body is an array. The wording
  of the TypeError is the engine's; \<open>read_error\<close> keeps what it names, the value read
  from and the property.
\<close>

definition read_error :: "string \<Rightarrow> string \<Rightarrow> js_error" where
  "read_error base p =
     TypeError (''Cannot read properties of '' @ base @ '' (reading '' @ p @ '')'')"

definition or_undefined :: "jsval option \<Rightarrow> jsval" where
  "or_undefined r = (case r of None \<Rightarrow> JUndefined | Some v \<Rightarrow> v)"

fun get_prop :: "jsval \<Rightarrow> string \<Rightarrow> js_error + jsval" where
  "get_prop JUndefined p = Inl (read_error ''undefined'' p)"
| "get_prop JNull p = Inl (read_error ''null'' p)"
| "get_prop (JObj m) p = Inr (or_undefined (m p))"
| "get_prop (JArr xs) p =
     (if p = ''length'' then Inr (JNum (int (length xs)))
      else if p = ''filter'' then Inr (JFun 1)
      else Inr (or_undefined (index_props xs p)))"
| "get_prop (JStr s) p =
     (if p = ''length'' then Inr (JNum (int (length s)))
      else Inr (or_undefined (index_props (map (\<lambda>c. JStr [c]) s) p)))"
| "get_prop (JFun n) p = (if p = ''length'' then Inr (JNum (int n)) else Inr JUndefined)"
| "get_prop (JBool b) p = Inr JUndefined"
| "get_prop (JNum n) p = Inr JUndefined"

text \<open>
  \<^verbatim>\<open>delete x[p]\<close>: throws on \<^verbatim>\<open>undefined\<close>/\<^verbatim>\<open>null\<close>, removes the own property of an
  object, and leaves every other value as it is (for the names the controller deletes,
  which are no array index).
\<close>

fun delete_prop :: "jsval \<Rightarrow> string \<Rightarrow> js_error + jsval" where
  "delete_prop JUndefined p = Inl (TypeError ''Cannot convert undefined or null to object'')"
| "delete_prop JNull p = Inl (TypeError ''Cannot convert undefined or null to object'')"
| "delete_prop (JObj m) p = Inr (JObj (m(p := None)))"
| "delete_prop v p = Inr v"

text \<open>
  The array spread \<^verbatim>\<open>[ ...x ]\<close>: the elements of an array, the characters of a string,
  a TypeError for every other value (none of them is iterable).
\<close>

fun array_spread :: "jsval \<Rightarrow> js_error + jsval list" where
  "array_spread (JArr xs) = Inr xs"
| "array_spread (JStr s) = Inr (map (\<lambda>c. JStr [c]) s)"
| "array_spread v = Inl (TypeError ''req.body.data is not iterable'')"

section \<open>Requests, collaborators and responses\<close>

text \<open>The request object: \<^verbatim>\<open>req.body\<close>, \<^verbatim>\<open>req.params\<close>, \<^verbatim>\<open>req.user\<close>.\<close>

record request =
  body :: jsval
  params :: jsval
  user :: jsval

text \<open>
  The schema constants of \<^verbatim>\<open>metalSchemaKey\<close> and \<^verbatim>\<open>Metal.schema.obj\<close> are opaque to the
  controller: it only passes them on.
\<close>

datatype schema = SchemaKeys | UpdateSchemaKeys | FindFilterKeys | MetalSchemaObj

text \<open>
  The calls the controller makes to its collaborators, with their arguments. The model
  \<^verbatim>\<open>Metal\<close>, which is the first argument of every \<^verbatim>\<open>dbService\<close> call, is a constant of the
  module and is left out. The third argument of \<^verbatim>\<open>validateFilterWithJoi\<close> is optional.
\<close>

datatype call =
    ValidateParamsWithJoi jsval schema
  | ValidateFilterWithJoi jsval schema "schema option"
  | ObjectId_isValid jsval
  | New_Metal jsval
  | Db_create jsval
  | Db_count jsval
  | Db_paginate jsval jsval
  | Db_findOne jsval jsval
  | Db_updateOne jsval jsval
  | Db_updateMany jsval jsval
  | Dep_softDeleteMetal jsval jsval
  | Dep_countMetal jsval
  | Dep_deleteMetal jsval

text \<open>
  The collaborators are parameters of the model: a world gives, for each call, the value
  it returns (for an asynchronous call, the value its promise resolves to) or the error
  it throws (or rejects with).
\<close>

type_synonym world = "call \<Rightarrow> js_error + jsval"

fun is_db_call :: "call \<Rightarrow> bool" where
  "is_db_call (Db_create d) = True"
| "is_db_call (Db_count q) = True"
| "is_db_call (Db_paginate q opts) = True"
| "is_db_call (Db_findOne q opts) = True"
| "is_db_call (Db_updateOne q d) = True"
| "is_db_call (Db_updateMany q d) = True"
| "is_db_call c = False"

fun is_dep_call :: "call \<Rightarrow> bool" where
  "is_dep_call (Dep_softDeleteMetal q d) = True"
| "is_dep_call (Dep_countMetal q) = True"
| "is_dep_call (Dep_deleteMetal q) = True"
| "is_dep_call c = False"

text \<open>
  The text of a response message: a literal, or a template literal
  \<^verbatim>\<open>`prefix${value}`\<close>, whose conversion of the value to a string is left uninterpreted.
\<close>

datatype msg_text = Text string | Template string jsval

text \<open>
  The response helpers: \<^verbatim>\<open>res.success({ data })\<close>, \<^verbatim>\<open>res.validationError({ message })\<close>,
  \<^verbatim>\<open>res.recordNotFound()\<close>, \<^verbatim>\<open>res.badRequest()\<close> with or without a message, and
  \<^verbatim>\<open>res.internalServerError({ message })\<close>.
\<close>

datatype response =
    Success jsval
  | ValidationError msg_text
  | RecordNotFound
  | BadRequest "msg_text option"
  | InternalServerError string

datatype event = Call call | Respond response

text \<open>
  A computation yields the events it caused, in order, and either the error it threw or
  its value.
\<close>

type_synonym 'a io = "event list \<times> (js_error + 'a)"

definition lift :: "js_error + 'a \<Rightarrow> 'a io" where
  "lift r = ([], r)"

definition andThen :: "'a io \<Rightarrow> ('a \<Rightarrow> 'b io) \<Rightarrow> 'b io" where
  "andThen m f =
     (case snd m of
        Inl e \<Rightarrow> (fst m, Inl e)
      | Inr x \<Rightarrow> (fst m @ fst (f x), snd (f x)))"

definition perform :: "world \<Rightarrow> call \<Rightarrow> jsval io" where
  "perform env c = ([Call c], env c)"

definition respond :: "response \<Rightarrow> unit io" where
  "respond r = ([Respond r], Inr ())"

text \<open>\<^verbatim>\<open>try { ... } catch (error) { ... }\<close>\<close>

definition try_catch :: "'a io \<Rightarrow> (js_error \<Rightarrow> 'a io) \<Rightarrow> 'a io" where
  "try_catch m h =
     (case snd m of
        Inl e \<Rightarrow> (fst m @ fst (h e), snd (h e))
      | Inr x \<Rightarrow> m)"

definition responses :: "'a io \<Rightarrow> response list" where
  "responses m = concat (map (\<lambda>ev. case ev of Respond r \<Rightarrow> [r] | Call c \<Rightarrow> []) (fst m))"

definition calls :: "'a io \<Rightarrow> call list" where
  "calls m = concat (map (\<lambda>ev. case ev of Call c \<Rightarrow> [c] | Respond r \<Rightarrow> []) (fst m))"

section \<open>The handlers\<close>

text \<open>
  Each handler is its \<^verbatim>\<open>try\<close> block (\<open>_try\<close>) wrapped in its \<^verbatim>\<open>catch\<close>. A
  \<^verbatim>\<open>return res.helper(...)\<close> ends the handler; what the helper returns is not used.
  The relational operator \<^verbatim>\<open>x < k\<close> is only reached with the length of an array for \<open>x\<close>.
\<close>

fun num_lt :: "jsval \<Rightarrow> int \<Rightarrow> bool" where
  "num_lt (JNum n) k = (n < k)"
| "num_lt v k = False"

definition catch_all :: "js_error \<Rightarrow> unit io" where
  "catch_all error = respond (InternalServerError (message error))"

subsection \<open>addMetal\<close>

definition addMetal_try :: "world \<Rightarrow> request \<Rightarrow> unit io" where
  "addMetal_try env req =
    (let dataToCreate = own_props (or_else (body req) (JObj Map.empty)) in
     andThen (perform env (ValidateParamsWithJoi (JObj dataToCreate) SchemaKeys)) (\<lambda>validateRequest.
     andThen (lift (get_prop validateRequest ''isValid'')) (\<lambda>isValid.
     if \<not> truthy isValid then
       andThen (lift (get_prop validateRequest ''message'')) (\<lambda>m.
       respond (ValidationError (Template ''Invalid values in parameters, '' m)))
     else
       andThen (lift (get_prop (user req) ''id'')) (\<lambda>uid.
       andThen (perform env (New_Metal (JObj (dataToCreate(''addedBy'' \<mapsto> uid))))) (\<lambda>dataToCreate.
       andThen (perform env (Db_create dataToCreate)) (\<lambda>createdMetal.
       respond (Success createdMetal)))))))"

definition addMetal :: "world \<Rightarrow> request \<Rightarrow> unit io" where
  "addMetal env req = try_catch (addMetal_try env req) catch_all"

subsection \<open>bulkInsertMetal\<close>

text \<open>
  The loop \<^verbatim>\<open>for (let i = 0; i < dataToCreate.length; i++)\<close>, which replaces each element
  by a copy with \<^verbatim>\<open>addedBy\<close> set; \<^verbatim>\<open>req.user.id\<close> is read in every round.
\<close>

function bulkInsert_loop :: "request \<Rightarrow> jsval list \<Rightarrow> nat \<Rightarrow> js_error + jsval list" where
  "bulkInsert_loop req dataToCreate i =
    (if i < length dataToCreate then
       (case get_prop (user req) ''id'' of
          Inl e \<Rightarrow> Inl e
        | Inr uid \<Rightarrow>
            bulkInsert_loop req
              (dataToCreate[i := JObj ((own_props (dataToCreate ! i))(''addedBy'' \<mapsto> uid))])
              (Suc i))
     else Inr dataToCreate)"
  by pat_completeness auto
termination
  by (relation "measure (\<lambda>(req, dataToCreate, i). length dataToCreate - i)") auto

declare bulkInsert_loop.simps [simp del]

definition bulkInsertMetal_try :: "world \<Rightarrow> request \<Rightarrow> unit io" where
  "bulkInsertMetal_try env req =
    andThen
      (if truthy (body req) then
         andThen (lift (get_prop (body req) ''data'')) (\<lambda>data.
         if \<not> isArray data then lift (Inr True)
         else andThen (lift (get_prop data ''length'')) (\<lambda>len. lift (Inr (num_lt len 1))))
       else lift (Inr False)) (\<lambda>reject.
    if reject then respond (BadRequest None)
    else
      andThen (lift (get_prop (body req) ''data'')) (\<lambda>data.
      andThen (lift (array_spread data)) (\<lambda>dataToCreate.
      andThen (lift (bulkInsert_loop req dataToCreate 0)) (\<lambda>dataToCreate.
      andThen (perform env (Db_create (JArr dataToCreate))) (\<lambda>createdMetals.
      andThen (if truthy createdMetals then lift (get_prop createdMetals ''length'')
               else lift (Inr (JNum 0))) (\<lambda>count.
      respond (Success (JObj [''count'' \<mapsto> or_else count (JNum 0)]))))))))"

definition bulkInsertMetal :: "world \<Rightarrow> request \<Rightarrow> unit io" where
  "bulkInsertMetal env req = try_catch (bulkInsertMetal_try env req) catch_all"

subsection \<open>findAllMetal\<close>

definition findAllMetal_try :: "world \<Rightarrow> request \<Rightarrow> unit io" where
  "findAllMetal_try env req =
    andThen (perform env (ValidateFilterWithJoi (body req) FindFilterKeys (Some MetalSchemaObj)))
      (\<lambda>validateRequest.
    andThen (lift (get_prop validateRequest ''isValid'')) (\<lambda>isValid.
    if \<not> truthy isValid then
      andThen (lift (get_prop validateRequest ''message'')) (\<lambda>m.
      respond (ValidationError (Template [] m)))
    else
      andThen (lift (get_prop (body req) ''query'')) (\<lambda>q.
      let query = (if is_object q then JObj (own_props q) else JObj Map.empty) in
      andThen (lift (get_prop (body req) ''isCountOnly'')) (\<lambda>isCountOnly.
      if truthy isCountOnly then
        andThen (perform env (Db_count query)) (\<lambda>totalRecords.
        respond (Success (JObj [''totalRecords'' \<mapsto> totalRecords])))
      else
        andThen (if truthy (body req) then lift (get_prop (body req) ''options'')
                 else lift (Inr JUndefined)) (\<lambda>opts.
        let options = (if truthy (body req) \<and> is_object opts then JObj (own_props opts)
                       else JObj Map.empty) in
        andThen (perform env (Db_paginate query options)) (\<lambda>foundMetals.
        andThen (if truthy foundMetals then lift (get_prop foundMetals ''data'')
                 else lift (Inr JUndefined)) (\<lambda>data.
        andThen (if truthy foundMetals \<and> truthy data then lift (get_prop data ''length'')
                 else lift (Inr JUndefined)) (\<lambda>len.
        if \<not> truthy foundMetals \<or> \<not> truthy data \<or> \<not> truthy len then respond RecordNotFound
        else respond (Success foundMetals)))))))))"

definition findAllMetal :: "world \<Rightarrow> request \<Rightarrow> unit io" where
  "findAllMetal env req = try_catch (findAllMetal_try env req) catch_all"

subsection \<open>getMetal\<close>

definition getMetal_try :: "world \<Rightarrow> request \<Rightarrow> unit io" where
  "getMetal_try env req =
    andThen (lift (get_prop (params req) ''id'')) (\<lambda>pid.
    andThen (perform env (ObjectId_isValid pid)) (\<lambda>valid.
    if \<not> truthy valid then respond (ValidationError (Text ''invalid objectId.''))
    else
      let query = JObj [''_id'' \<mapsto> pid]; options = JObj Map.empty in
      andThen (perform env (Db_findOne query options)) (\<lambda>foundMetal.
      if \<not> truthy foundMetal then respond RecordNotFound
      else respond (Success foundMetal))))"

definition getMetal :: "world \<Rightarrow> request \<Rightarrow> unit io" where
  "getMetal env req = try_catch (getMetal_try env req) catch_all"

subsection \<open>getMetalCount\<close>

definition getMetalCount_try :: "world \<Rightarrow> request \<Rightarrow> unit io" where
  "getMetalCount_try env req =
    andThen (perform env (ValidateFilterWithJoi (body req) FindFilterKeys None)) (\<lambda>validateRequest.
    andThen (lift (get_prop validateRequest ''isValid'')) (\<lambda>isValid.
    if \<not> truthy isValid then
      andThen (lift (get_prop validateRequest ''message'')) (\<lambda>m.
      respond (ValidationError (Template [] m)))
    else
      andThen (lift (get_prop (body req) ''where'')) (\<lambda>w.
      let where' = (if is_object w then JObj (own_props w) else JObj Map.empty) in
      andThen (perform env (Db_count where')) (\<lambda>countedMetal.
      respond (Success (JObj [''count'' \<mapsto> countedMetal]))))))"

definition getMetalCount :: "world \<Rightarrow> request \<Rightarrow> unit io" where
  "getMetalCount env req = try_catch (getMetalCount_try env req) catch_all"

subsection \<open>updateMetal\<close>

definition updateMetal_try :: "world \<Rightarrow> request \<Rightarrow> unit io" where
  "updateMetal_try env req =
    andThen (lift (get_prop (user req) ''id'')) (\<lambda>uid.
    let dataToUpdate = JObj ((own_props (body req))(''updatedBy'' \<mapsto> uid)) in
    andThen (perform env (ValidateParamsWithJoi dataToUpdate UpdateSchemaKeys)) (\<lambda>validateRequest.
    andThen (lift (get_prop validateRequest ''isValid'')) (\<lambda>isValid.
    if \<not> truthy isValid then
      andThen (lift (get_prop validateRequest ''message'')) (\<lambda>m.
      respond (ValidationError (Template ''Invalid values in parameters, '' m)))
    else
      andThen (lift (get_prop (params req) ''id'')) (\<lambda>pid.
      let query = JObj [''_id'' \<mapsto> pid] in
      andThen (perform env (Db_updateOne query dataToUpdate)) (\<lambda>updatedMetal.
      if \<not> truthy updatedMetal then respond RecordNotFound
      else respond (Success updatedMetal))))))"

definition updateMetal :: "world \<Rightarrow> request \<Rightarrow> unit io" where
  "updateMetal env req = try_catch (updateMetal_try env req) catch_all"

subsection \<open>bulkUpdateMetal\<close>

text \<open>
  \<^verbatim>\<open>delete dataToUpdate['addedBy']\<close> acts on the empty object the source has just
  created, before the client data is copied in: it removes nothing.
\<close>

definition bulkUpdateMetal_try :: "world \<Rightarrow> request \<Rightarrow> unit io" where
  "bulkUpdateMetal_try env req =
    andThen (if truthy (body req) then lift (get_prop (body req) ''filter'')
             else lift (Inr (body req))) (\<lambda>f.
    let filter = (if truthy f then JObj (own_props f) else JObj Map.empty) in
    andThen (lift (delete_prop (JObj Map.empty) ''addedBy'')) (\<lambda>dataToUpdate.
    andThen (if truthy (body req) then lift (get_prop (body req) ''data'')
             else lift (Inr JUndefined)) (\<lambda>data.
    andThen (if truthy (body req) \<and> is_object data then
               andThen (lift (get_prop (user req) ''id'')) (\<lambda>uid.
               lift (Inr (JObj ((own_props data)(''updatedBy'' \<mapsto> uid)))))
             else lift (Inr dataToUpdate)) (\<lambda>dataToUpdate.
    andThen (perform env (Db_updateMany filter dataToUpdate)) (\<lambda>updatedMetal.
    if \<not> truthy updatedMetal then respond RecordNotFound
    else respond (Success (JObj [''count'' \<mapsto> updatedMetal])))))))"

definition bulkUpdateMetal :: "world \<Rightarrow> request \<Rightarrow> unit io" where
  "bulkUpdateMetal env req = try_catch (bulkUpdateMetal_try env req) catch_all"

subsection \<open>partialUpdateMetal\<close>

text \<open>
  The first \<^verbatim>\<open>res.badRequest\<close> of this handler is not returned: the handler goes on after
  it. \<^verbatim>\<open>delete req.body['addedBy']\<close> changes the request's body, which the handler reads
  again right after.
\<close>

definition partialUpdateMetal_try :: "world \<Rightarrow> request \<Rightarrow> unit io" where
  "partialUpdateMetal_try env req =
    andThen (lift (get_prop (params req) ''id'')) (\<lambda>pid.
    andThen (if \<not> truthy pid then
               respond (BadRequest (Some (Text ''Insufficient request parameters! id is required.'')))
             else lift (Inr ())) (\<lambda>_.
    andThen (lift (delete_prop (body req) ''addedBy'')) (\<lambda>body'.
    let req = req\<lparr>body := body'\<rparr> in
    andThen (lift (get_prop (user req) ''id'')) (\<lambda>uid.
    let dataToUpdate = JObj ((own_props (body req))(''updatedBy'' \<mapsto> uid)) in
    andThen (perform env (ValidateParamsWithJoi dataToUpdate UpdateSchemaKeys)) (\<lambda>validateRequest.
    andThen (lift (get_prop validateRequest ''isValid'')) (\<lambda>isValid.
    if \<not> truthy isValid then
      andThen (lift (get_prop validateRequest ''message'')) (\<lambda>m.
      respond (ValidationError (Template ''Invalid values in parameters, '' m)))
    else
      andThen (lift (get_prop (params req) ''id'')) (\<lambda>pid.
      let query = JObj [''_id'' \<mapsto> pid] in
      andThen (perform env (Db_updateOne query dataToUpdate)) (\<lambda>updatedMetal.
      if \<not> truthy updatedMetal then respond RecordNotFound
      else respond (Success updatedMetal)))))))))"

definition partialUpdateMetal :: "world \<Rightarrow> request \<Rightarrow> unit io" where
  "partialUpdateMetal env req = try_catch (partialUpdateMetal_try env req) catch_all"

subsection \<open>softDeleteMetal\<close>

definition softDeleteMetal_try :: "world \<Rightarrow> request \<Rightarrow> unit io" where
  "softDeleteMetal_try env req =
    andThen (lift (get_prop (params req) ''id'')) (\<lambda>pid.
    if \<not> truthy pid then
      respond (BadRequest (Some (Text ''Insufficient request parameters! id is required.'')))
    else
      let query = JObj [''_id'' \<mapsto> pid] in
      andThen (lift (get_prop (user req) ''id'')) (\<lambda>uid.
      let updateBody = JObj [''isDeleted'' \<mapsto> JBool True, ''updatedBy'' \<mapsto> uid] in
      andThen (perform env (Dep_softDeleteMetal query updateBody)) (\<lambda>updatedMetal.
      if \<not> truthy updatedMetal then respond RecordNotFound
      else respond (Success updatedMetal))))"

definition softDeleteMetal :: "world \<Rightarrow> request \<Rightarrow> unit io" where
  "softDeleteMetal env req = try_catch (softDeleteMetal_try env req) catch_all"

subsection \<open>deleteMetal\<close>

definition deleteMetal_try :: "world \<Rightarrow> request \<Rightarrow> unit io" where
  "deleteMetal_try env req =
    andThen (lift (get_prop (params req) ''id'')) (\<lambda>pid.
    if \<not> truthy pid then
      respond (BadRequest (Some (Text ''Insufficient request parameters! id is required.'')))
    else
      let query = JObj [''_id'' \<mapsto> pid] in
      andThen (lift (get_prop (body req) ''isWarning'')) (\<lambda>isWarning.
      andThen (if truthy isWarning then perform env (Dep_countMetal query)
               else perform env (Dep_deleteMetal query)) (\<lambda>deletedMetal.
      if \<not> truthy deletedMetal then respond RecordNotFound
      else respond (Success deletedMetal))))"

definition deleteMetal :: "world \<Rightarrow> request \<Rightarrow> unit io" where
  "deleteMetal env req = try_catch (deleteMetal_try env req) catch_all"

subsection \<open>deleteManyMetal\<close>

definition deleteManyMetal_try :: "world \<Rightarrow> request \<Rightarrow> unit io" where
  "deleteManyMetal_try env req =
    andThen (lift (get_prop (body req) ''ids'')) (\<lambda>ids.
    andThen (if \<not> truthy ids \<or> \<not> isArray ids then lift (Inr True)
             else andThen (lift (get_prop ids ''length'')) (\<lambda>len. lift (Inr (num_lt len 1))))
      (\<lambda>reject.
    if reject then respond (BadRequest None)
    else
      let query = JObj [''_id'' \<mapsto> JObj [''$in'' \<mapsto> ids]] in
      andThen (lift (get_prop (body req) ''isWarning'')) (\<lambda>isWarning.
      andThen (if truthy isWarning then perform env (Dep_countMetal query)
               else perform env (Dep_deleteMetal query)) (\<lambda>deletedMetal.
      if \<not> truthy deletedMetal then respond RecordNotFound
      else respond (Success deletedMetal)))))"

definition deleteManyMetal :: "world \<Rightarrow> request \<Rightarrow> unit io" where
  "deleteManyMetal env req = try_catch (deleteManyMetal_try env req) catch_all"

subsection \<open>softDeleteManyMetal\<close>

definition softDeleteManyMetal_try :: "world \<Rightarrow> request \<Rightarrow> unit io" where
  "softDeleteManyMetal_try env req =
    andThen (lift (get_prop (body req) ''ids'')) (\<lambda>ids.
    andThen (if \<not> truthy ids \<or> \<not> isArray ids then lift (Inr True)
             else andThen (lift (get_prop ids ''length'')) (\<lambda>len. lift (Inr (num_lt len 1))))
      (\<lambda>reject.
    if reject then respond (BadRequest None)
    else
      let query = JObj [''_id'' \<mapsto> JObj [''$in'' \<mapsto> ids]] in
      andThen (lift (get_prop (user req) ''id'')) (\<lambda>uid.
      let updateBody = JObj [''isDeleted'' \<mapsto> JBool True, ''updatedBy'' \<mapsto> uid] in
      andThen (perform env (Dep_softDeleteMetal query updateBody)) (\<lambda>updatedMetal.
      if \<not> truthy updatedMetal then respond RecordNotFound
      else respond (Success updatedMetal)))))"

definition softDeleteManyMetal :: "world \<Rightarrow> request \<Rightarrow> unit io" where
  "softDeleteManyMetal env req = try_catch (softDeleteManyMetal_try env req) catch_all"

subsection \<open>module.exports\<close>

text \<open>The exported handlers, each with its \<^verbatim>\<open>try\<close> block.\<close>

definition module_exports ::
  "((world \<Rightarrow> request \<Rightarrow> unit io) \<times> (world \<Rightarrow> request \<Rightarrow> unit io)) list" where
  "module_exports =
    [(addMetal, addMetal_try),
     (bulkInsertMetal, bulkInsertMetal_try),
     (findAllMetal, findAllMetal_try),
     (getMetal, getMetal_try),
     (getMetalCount, getMetalCount_try),
     (updateMetal, updateMetal_try),
     (bulkUpdateMetal, bulkUpdateMetal_try),
     (partialUpdateMetal, partialUpdateMetal_try),
     (softDeleteMetal, softDeleteMetal_try),
     (deleteMetal, deleteMetal_try),
     (deleteManyMetal, deleteManyMetal_try),
     (softDeleteManyMetal, softDeleteManyMetal_try)]"

text \<open>What a run did: the collaborator calls it made that reach the database.\<close>

definition persistence_calls :: "'a io \<Rightarrow> call list" where
  "persistence_calls m = filter (\<lambda>c. is_db_call c \<or> is_dep_call c) (calls m)"

section \<open>Notions used by the properties\<close>

text \<open>
  A computation propagates the errors of its collaborators when a call that threw is the
  last thing it did and its error is the one the computation throws.
\<close>

definition propagates :: "world \<Rightarrow> 'a io \<Rightarrow> bool" where
  "propagates env m =
     (\<forall>c error. Call c \<in> set (fst m) \<longrightarrow> env c = Inl error \<longrightarrow>
        snd m = Inl error \<and> (\<exists>pre. fst m = pre @ [Call c]))"

text \<open>
  The validation call \<open>c\<close> returns, in the world \<open>env\<close>, a result whose \<^verbatim>\<open>isValid\<close> is falsy
  and whose \<^verbatim>\<open>message\<close> is \<open>m\<close>.
\<close>

definition validation_rejects :: "world \<Rightarrow> call \<Rightarrow> jsval \<Rightarrow> bool" where
  "validation_rejects env c m =
     (case env c of
        Inl e \<Rightarrow> False
      | Inr validateRequest \<Rightarrow>
          (case get_prop validateRequest ''isValid'' of
             Inl e \<Rightarrow> False
           | Inr isValid \<Rightarrow> \<not> truthy isValid \<and> get_prop validateRequest ''message'' = Inr m))"

definition is_validation_call :: "call \<Rightarrow> bool" where
  "is_validation_call c =
     (case c of ValidateParamsWithJoi d k \<Rightarrow> True | ValidateFilterWithJoi d k s \<Rightarrow> True
      | _ \<Rightarrow> False)"

text \<open>Every collaborator call of a computation satisfies \<open>P\<close>.\<close>

definition calls_satisfy :: "(call \<Rightarrow> bool) \<Rightarrow> 'a io \<Rightarrow> bool" where
  "calls_satisfy P m = (\<forall>c. Call c \<in> set (fst m) \<longrightarrow> P c)"

text \<open>
  The bulk array a handler accepts: an array with at least one element.
\<close>

fun nonempty_array :: "jsval \<Rightarrow> bool" where
  "nonempty_array (JArr xs) = (xs \<noteq> [])"
| "nonempty_array v = False"

text \<open>
  The validation call \<open>c\<close> returns, in the world \<open>env\<close>, a result whose \<^verbatim>\<open>isValid\<close> is
  truthy.
\<close>

definition validation_accepts :: "world \<Rightarrow> call \<Rightarrow> bool" where
  "validation_accepts env c =
     (case env c of
        Inl e \<Rightarrow> False
      | Inr validateRequest \<Rightarrow>
          (case get_prop validateRequest ''isValid'' of
             Inl e \<Rightarrow> False
           | Inr isValid \<Rightarrow> truthy isValid))"

section \<open>Example worlds and requests\<close>

text \<open>
  A world whose validation accepts everything, whose \<^verbatim>\<open>Metal\<close> constructor returns its
  argument, and whose every other collaborator throws.
\<close>

definition failing_db :: world where
  "failing_db c =
    (case c of
       ValidateParamsWithJoi d k \<Rightarrow> Inr (JObj [''isValid'' \<mapsto> JBool True])
     | New_Metal d \<Rightarrow> Inr d
     | _ \<Rightarrow> Inl (Error ''connection lost''))"

definition anonymous_request :: request where
  "anonymous_request = \<lparr>body = JObj Map.empty, params = JObj Map.empty, user = JUndefined\<rparr>"

definition admin_request :: request where
  "admin_request =
     \<lparr>body = JObj Map.empty, params = JObj Map.empty, user = JObj [''id'' \<mapsto> JStr ''u1'']\<rparr>"

text \<open>A world whose validation rejects every payload and whose database accepts everything.\<close>

definition rejecting_world :: world where
  "rejecting_world c =
    (case c of
       ValidateParamsWithJoi d k \<Rightarrow>
         Inr (JObj [''isValid'' \<mapsto> JBool False, ''message'' \<mapsto> JStr ''name is required''])
     | ValidateFilterWithJoi d k s \<Rightarrow>
         Inr (JObj [''isValid'' \<mapsto> JBool False, ''message'' \<mapsto> JStr ''name is required''])
     | Db_create d \<Rightarrow> Inr d
     | Db_updateMany f d \<Rightarrow> Inr (JNum 1)
     | _ \<Rightarrow> Inr JNull)"

definition update_request :: request where
  "update_request =
     \<lparr>body = JObj [''name'' \<mapsto> JStr ''gold'', ''addedBy'' \<mapsto> JStr ''intruder''],
      params = JObj [''id'' \<mapsto> JStr ''507f1f77bcf86cd799439011''],
      user = JObj [''id'' \<mapsto> JStr ''u1'']\<rparr>"

definition bulk_request :: request where
  "bulk_request =
     \<lparr>body = JObj [''data'' \<mapsto> JArr [JObj Map.empty]],
      params = JObj Map.empty,
      user = JObj [''id'' \<mapsto> JStr ''u1'']\<rparr>"

text \<open>
  A world whose validation accepts every payload, whose only valid object id is
  \<^verbatim>\<open>507f1f77bcf86cd799439011\<close> and whose database answers every call.
\<close>

definition accepting_world :: world where
  "accepting_world c =
    (case c of
       ValidateParamsWithJoi d k \<Rightarrow> Inr (JObj [''isValid'' \<mapsto> JBool True])
     | ValidateFilterWithJoi d k s \<Rightarrow> Inr (JObj [''isValid'' \<mapsto> JBool True])
     | ObjectId_isValid v \<Rightarrow> Inr (JBool (v = JStr ''507f1f77bcf86cd799439011''))
     | New_Metal d \<Rightarrow> Inr d
     | Db_create d \<Rightarrow> Inr d
     | Db_count q \<Rightarrow> Inr (JNum 2)
     | Db_paginate q opts \<Rightarrow> Inr (JObj [''data'' \<mapsto> JArr [JObj [''name'' \<mapsto> JStr ''gold'']]])
     | Db_findOne q opts \<Rightarrow> Inr (JObj [''name'' \<mapsto> JStr ''gold''])
     | Db_updateOne q d \<Rightarrow> Inr d
     | Db_updateMany q d \<Rightarrow> Inr (JNum 1)
     | Dep_softDeleteMetal q d \<Rightarrow> Inr d
     | Dep_countMetal q \<Rightarrow> Inr (JObj [''metal'' \<mapsto> JNum 1])
     | Dep_deleteMetal q \<Rightarrow> Inr (JObj [''metal'' \<mapsto> JNum 1]))"





text \<open>
  The accepting world with a database that finds nothing, and with a dependency count of
  zero.
\<close>

definition empty_db_world :: world where
  "empty_db_world c =
    (case c of
       Db_findOne q opts \<Rightarrow> Inr JNull
     | Db_paginate q opts \<Rightarrow> Inr (JObj [''data'' \<mapsto> JArr []])
     | _ \<Rightarrow> accepting_world c)"

definition no_dependents_world :: world where
  "no_dependents_world c =
    (case c of Dep_countMetal q \<Rightarrow> Inr (JNum 0) | _ \<Rightarrow> accepting_world c)"

definition warning_request :: request where
  "warning_request =
     \<lparr>body = JObj [''isWarning'' \<mapsto> JBool True,
                  ''ids'' \<mapsto> JArr [JStr ''507f1f77bcf86cd799439011'']],
      params = JObj [''id'' \<mapsto> JStr ''507f1f77bcf86cd799439011''],
      user = JObj [''id'' \<mapsto> JStr ''u1'']\<rparr>"

definition find_request :: request where
  "find_request =
     \<lparr>body = JObj [''query'' \<mapsto> JObj [''name'' \<mapsto> JStr ''gold'']],
      params = JObj [''id'' \<mapsto> JStr ''507f1f77bcf86cd799439011''],
      user = JObj [''id'' \<mapsto> JStr ''u1'']\<rparr>"

definition count_request :: request where
  "count_request =
     \<lparr>body = JObj [''query'' \<mapsto> JObj [''name'' \<mapsto> JStr ''gold''], ''isCountOnly'' \<mapsto> JBool True],
      params = JObj Map.empty,
      user = JObj [''id'' \<mapsto> JStr ''u1'']\<rparr>"

text \<open>
  Requests whose client data carries an \<^verbatim>\<open>addedBy\<close> of its own.
\<close>

definition bulk_update_request :: request where
  "bulk_update_request =
     \<lparr>body = JObj [''filter'' \<mapsto> JObj [''name'' \<mapsto> JStr ''gold''],
                  ''data'' \<mapsto> JObj [''addedBy'' \<mapsto> JStr ''intruder'']],
      params = JObj Map.empty,
      user = JObj [''id'' \<mapsto> JStr ''u1'']\<rparr>"



section \<open>Properties of the controller\<close>

subsection \<open>The computation steps\<close>

lemma andThen_Inl [simp]: "andThen (es, Inl e) f = (es, Inl e)"
  by (simp add: andThen_def)

lemma andThen_Inr [simp]: "andThen (es, Inr x) f = (es @ fst (f x), snd (f x))"
  by (simp add: andThen_def)

lemma andThen_lift_Inr [simp]: "andThen (lift (Inr x)) f = f x"
  by (simp add: andThen_def lift_def)

lemma andThen_lift_Inl [simp]: "andThen (lift (Inl e)) f = ([], Inl e)"
  by (simp add: andThen_def lift_def)

lemma propagates_lift: "propagates env (lift r)"
  by (simp add: propagates_def lift_def)

lemma propagates_respond: "propagates env (respond r)"
  by (simp add: propagates_def respond_def)

lemma propagates_perform: "propagates env (perform env c)"
  by (simp add: propagates_def perform_def)

lemma propagates_andThen:
  assumes m: "propagates env m"
    and f: "\<And>x. snd m = Inr x \<Longrightarrow> propagates env (f x)"
  shows "propagates env (andThen m f)"
proof (cases "snd m")
  case (Inl e)
  then have "fst (andThen m f) = fst m" and "snd (andThen m f) = Inl e"
    by (simp_all add: andThen_def)
  with m Inl show ?thesis by (simp add: propagates_def)
next
  case (Inr x)
  have tr: "fst (andThen m f) = fst m @ fst (f x)" and re: "snd (andThen m f) = snd (f x)"
    using Inr by (simp_all add: andThen_def)
  have nom: "\<And>c error. Call c \<in> set (fst m) \<Longrightarrow> env c = Inl error \<Longrightarrow> False"
    using m Inr by (auto simp: propagates_def)
  show ?thesis
    unfolding propagates_def tr re
  proof (intro allI impI)
    fix c error
    assume c: "Call c \<in> set (fst m @ fst (f x))" and e: "env c = Inl error"
    from c e nom have "Call c \<in> set (fst (f x))" by auto
    with f [OF Inr] e have "snd (f x) = Inl error" and "\<exists>pre. fst (f x) = pre @ [Call c]"
      by (auto simp: propagates_def)
    then show "snd (f x) = Inl error \<and> (\<exists>pre. fst m @ fst (f x) = pre @ [Call c])"
      by auto
  qed
qed

lemma propagates_if:
  "(b \<Longrightarrow> propagates env m) \<Longrightarrow> (\<not> b \<Longrightarrow> propagates env n) \<Longrightarrow>
   propagates env (if b then m else n)"
  by simp

lemmas propagates_intros =
  propagates_andThen propagates_if propagates_lift propagates_respond propagates_perform

lemma addMetal_propagates: "propagates env (addMetal_try env req)"
  unfolding addMetal_try_def Let_def by (intro propagates_intros)

lemma bulkInsertMetal_propagates: "propagates env (bulkInsertMetal_try env req)"
  unfolding bulkInsertMetal_try_def Let_def by (intro propagates_intros)

lemma findAllMetal_propagates: "propagates env (findAllMetal_try env req)"
  unfolding findAllMetal_try_def Let_def by (intro propagates_intros)

lemma getMetal_propagates: "propagates env (getMetal_try env req)"
  unfolding getMetal_try_def Let_def by (intro propagates_intros)

lemma getMetalCount_propagates: "propagates env (getMetalCount_try env req)"
  unfolding getMetalCount_try_def Let_def by (intro propagates_intros)

lemma updateMetal_propagates: "propagates env (updateMetal_try env req)"
  unfolding updateMetal_try_def Let_def by (intro propagates_intros)

lemma bulkUpdateMetal_propagates: "propagates env (bulkUpdateMetal_try env req)"
  unfolding bulkUpdateMetal_try_def Let_def by (intro propagates_intros)

lemma partialUpdateMetal_propagates: "propagates env (partialUpdateMetal_try env req)"
  unfolding partialUpdateMetal_try_def Let_def by (intro propagates_intros)

lemma softDeleteMetal_propagates: "propagates env (softDeleteMetal_try env req)"
  unfolding softDeleteMetal_try_def Let_def by (intro propagates_intros)

lemma deleteMetal_propagates: "propagates env (deleteMetal_try env req)"
  unfolding deleteMetal_try_def Let_def by (intro propagates_intros)

lemma deleteManyMetal_propagates: "propagates env (deleteManyMetal_try env req)"
  unfolding deleteManyMetal_try_def Let_def by (intro propagates_intros)

lemma softDeleteManyMetal_propagates: "propagates env (softDeleteManyMetal_try env req)"
  unfolding softDeleteManyMetal_try_def Let_def by (intro propagates_intros)

lemma module_exports_shape:
  assumes "(handler, try_block) \<in> set module_exports"
  shows "handler env req = try_catch (try_block env req) catch_all"
    and "propagates env (try_block env req)"
  using assms
  by (auto simp: module_exports_def
      addMetal_def bulkInsertMetal_def findAllMetal_def getMetal_def getMetalCount_def
      updateMetal_def bulkUpdateMetal_def partialUpdateMetal_def softDeleteMetal_def
      deleteMetal_def deleteManyMetal_def softDeleteManyMetal_def
      intro: addMetal_propagates bulkInsertMetal_propagates findAllMetal_propagates
      getMetal_propagates getMetalCount_propagates updateMetal_propagates
      bulkUpdateMetal_propagates partialUpdateMetal_propagates softDeleteMetal_propagates
      deleteMetal_propagates deleteManyMetal_propagates softDeleteManyMetal_propagates)

lemma try_catch_all_returns: "snd (try_catch m catch_all) = Inr ()"
  by (cases "snd m") (simp_all add: try_catch_def catch_all_def respond_def)

lemma try_catch_all_thrown:
  "snd m = Inl error \<Longrightarrow>
   fst (try_catch m catch_all) = fst m @ [Respond (InternalServerError (message error))]"
  by (simp add: try_catch_def catch_all_def respond_def)

lemma try_catch_all_returned: "snd m = Inr x \<Longrightarrow> try_catch m catch_all = m"
  by (simp add: try_catch_def)

lemma calls_Nil [simp]: "calls ([], r) = []"
  by (simp add: calls_def)

lemma calls_Call [simp]: "calls (Call c # es, r) = c # calls (es, r)"
  by (simp add: calls_def)

lemma calls_Respond [simp]: "calls (Respond x # es, r) = calls (es, r)"
  by (simp add: calls_def)

lemma responses_Nil [simp]: "responses ([], r) = []"
  by (simp add: responses_def)

lemma responses_Call [simp]: "responses (Call c # es, r) = responses (es, r)"
  by (simp add: responses_def)

lemma responses_Respond [simp]: "responses (Respond x # es, r) = x # responses (es, r)"
  by (simp add: responses_def)

lemma set_calls: "set (calls m) = {c. Call c \<in> set (fst m)}"
proof -
  have "set (concat (map (\<lambda>ev. case ev of Call c \<Rightarrow> [c] | Respond r \<Rightarrow> []) es)) =
      {c. Call c \<in> set es}" for es
    by (induction es) (auto split: event.splits)
  then show ?thesis by (simp add: calls_def)
qed

lemma calls_satisfy_iff: "calls_satisfy P m \<longleftrightarrow> (\<forall>c \<in> set (calls m). P c)"
  by (simp add: calls_satisfy_def set_calls)

lemma calls_satisfy_lift: "calls_satisfy P (lift r)"
  by (simp add: calls_satisfy_def lift_def)

lemma calls_satisfy_respond: "calls_satisfy P (respond r)"
  by (simp add: calls_satisfy_def respond_def)

lemma calls_satisfy_catch_all: "calls_satisfy P (catch_all e)"
  by (simp add: calls_satisfy_def respond_def catch_all_def)

lemma calls_satisfy_perform: "P c \<Longrightarrow> calls_satisfy P (perform env c)"
  by (simp add: calls_satisfy_def perform_def)

lemma calls_satisfy_andThen:
  "calls_satisfy P m \<Longrightarrow> (\<And>x. snd m = Inr x \<Longrightarrow> calls_satisfy P (f x)) \<Longrightarrow>
   calls_satisfy P (andThen m f)"
  by (cases "snd m") (auto simp: calls_satisfy_def andThen_def)

lemma calls_satisfy_try_catch:
  "calls_satisfy P m \<Longrightarrow> (\<And>e. calls_satisfy P (h e)) \<Longrightarrow> calls_satisfy P (try_catch m h)"
  by (cases "snd m") (auto simp: calls_satisfy_def try_catch_def)

lemma calls_satisfy_if:
  "(b \<Longrightarrow> calls_satisfy P m) \<Longrightarrow> (\<not> b \<Longrightarrow> calls_satisfy P n) \<Longrightarrow>
   calls_satisfy P (if b then m else n)"
  by simp

lemmas calls_satisfy_intros =
  calls_satisfy_try_catch calls_satisfy_andThen calls_satisfy_if calls_satisfy_lift
  calls_satisfy_respond calls_satisfy_catch_all calls_satisfy_perform

text \<open>The definitions a run of a handler unfolds to.\<close>

lemmas run_defs = try_catch_def perform_def respond_def catch_all_def Let_def

subsection \<open>Thrown errors\<close>

text \<open>
  Claim C2. For every exported handler: the handler itself never throws; when its
  \<^verbatim>\<open>try\<close> block throws an error (a collaborator's, or the TypeError of a read on a
  missing request field), the handler does what the block did and then responds
  \<^verbatim>\<open>internalServerError\<close> with exactly that error's message; and when a collaborator
  call threw, that call is the last thing the handler did before this response, so no
  other response follows a thrown error.
\<close>

theorem thrown_error_is_internalServerError:
  assumes "(handler, try_block) \<in> set module_exports"
  shows "snd (handler env req) = Inr () \<and>
    (\<forall>error. snd (try_block env req) = Inl error \<longrightarrow>
       fst (handler env req) =
         fst (try_block env req) @ [Respond (InternalServerError (message error))]) \<and>
    (\<forall>c error. Call c \<in> set (fst (try_block env req)) \<longrightarrow> env c = Inl error \<longrightarrow>
       (\<exists>pre. fst (handler env req) =
          pre @ [Call c, Respond (InternalServerError (message error))]))"
proof -
  have h: "handler env req = try_catch (try_block env req) catch_all"
    and p: "propagates env (try_block env req)"
    using assms by (rule module_exports_shape)+
  have "\<exists>pre. fst (handler env req) =
          pre @ [Call c, Respond (InternalServerError (message error))]"
    if c: "Call c \<in> set (fst (try_block env req))" and e: "env c = Inl error" for c error
  proof -
    from p c e obtain pre where "snd (try_block env req) = Inl error"
      and "fst (try_block env req) = pre @ [Call c]"
      by (auto simp: propagates_def)
    then have "fst (handler env req) =
        pre @ [Call c, Respond (InternalServerError (message error))]"
      by (simp add: h try_catch_all_thrown)
    then show ?thesis ..
  qed
  then show ?thesis
    by (simp add: h try_catch_all_returns try_catch_all_thrown)
qed

text \<open>
  The theorem at \<^verbatim>\<open>addMetal\<close>: once with a database that fails, once with a request
  that has no \<^verbatim>\<open>req.user\<close>.
\<close>

theorem thrown_error_is_internalServerError_witness:
  "(addMetal, addMetal_try) \<in> set module_exports \<and>
   snd (addMetal_try failing_db admin_request) = Inl (Error ''connection lost'') \<and>
   snd (addMetal failing_db admin_request) = Inr () \<and>
   fst (addMetal failing_db admin_request) =
     fst (addMetal_try failing_db admin_request) @
       [Respond (InternalServerError ''connection lost'')] \<and>
   snd (addMetal_try failing_db anonymous_request) =
     Inl (TypeError ''Cannot read properties of undefined (reading id)'') \<and>
   fst (addMetal failing_db anonymous_request) =
     fst (addMetal_try failing_db anonymous_request) @
       [Respond (InternalServerError ''Cannot read properties of undefined (reading id)'')]"
proof -
  have m: "(addMetal, addMetal_try) \<in> set module_exports"
    by (simp add: module_exports_def)
  have a: "snd (addMetal_try failing_db admin_request) = Inl (Error ''connection lost'')"
    by (simp add: addMetal_try_def failing_db_def admin_request_def perform_def or_else_def
        or_undefined_def Let_def)
  have b: "snd (addMetal_try failing_db anonymous_request) =
     Inl (TypeError ''Cannot read properties of undefined (reading id)'')"
    by (simp add: addMetal_try_def failing_db_def anonymous_request_def perform_def or_else_def
        or_undefined_def read_error_def Let_def)
  show ?thesis
    using thrown_error_is_internalServerError [OF m, of failing_db admin_request]
      thrown_error_is_internalServerError [OF m, of failing_db anonymous_request] m a b
    by simp
qed

subsection \<open>Schema validation\<close>

lemma validation_rejectsD:
  assumes "validation_rejects env c m"
  obtains v b where "env c = Inr v" "get_prop v ''isValid'' = Inr b" "\<not> truthy b"
    "get_prop v ''message'' = Inr m"
  using assms by (auto simp: validation_rejects_def split: sum.splits)

lemma addMetal_rejects:
  assumes "validation_rejects env
     (ValidateParamsWithJoi (JObj (own_props (or_else (body req) (JObj Map.empty)))) SchemaKeys) m"
  shows "addMetal env req =
     ([Call (ValidateParamsWithJoi (JObj (own_props (or_else (body req) (JObj Map.empty))))
         SchemaKeys),
       Respond (ValidationError (Template ''Invalid values in parameters, '' m))], Inr ())"
  using assms
  by (elim validation_rejectsD)
    (simp add: addMetal_def addMetal_try_def try_catch_def perform_def respond_def Let_def)

lemma findAllMetal_rejects:
  assumes "validation_rejects env
     (ValidateFilterWithJoi (body req) FindFilterKeys (Some MetalSchemaObj)) m"
  shows "findAllMetal env req =
     ([Call (ValidateFilterWithJoi (body req) FindFilterKeys (Some MetalSchemaObj)),
       Respond (ValidationError (Template [] m))], Inr ())"
  using assms
  by (elim validation_rejectsD)
    (simp add: findAllMetal_def findAllMetal_try_def try_catch_def perform_def respond_def Let_def)

lemma getMetalCount_rejects:
  assumes "validation_rejects env (ValidateFilterWithJoi (body req) FindFilterKeys None) m"
  shows "getMetalCount env req =
     ([Call (ValidateFilterWithJoi (body req) FindFilterKeys None),
       Respond (ValidationError (Template [] m))], Inr ())"
  using assms
  by (elim validation_rejectsD)
    (simp add: getMetalCount_def getMetalCount_try_def try_catch_def perform_def respond_def
      Let_def)

lemma updateMetal_rejects:
  assumes "get_prop (user req) ''id'' = Inr uid"
    and "validation_rejects env
     (ValidateParamsWithJoi (JObj ((own_props (body req))(''updatedBy'' \<mapsto> uid)))
        UpdateSchemaKeys) m"
  shows "updateMetal env req =
     ([Call (ValidateParamsWithJoi (JObj ((own_props (body req))(''updatedBy'' \<mapsto> uid)))
         UpdateSchemaKeys),
       Respond (ValidationError (Template ''Invalid values in parameters, '' m))], Inr ())"
  using assms(2)
  by (elim validation_rejectsD)
    (simp add: updateMetal_def updateMetal_try_def try_catch_def perform_def respond_def Let_def
      assms(1))

lemma partialUpdateMetal_rejects:
  assumes "get_prop (params req) ''id'' = Inr pid" and "truthy pid"
    and "delete_prop (body req) ''addedBy'' = Inr body'"
    and "get_prop (user req) ''id'' = Inr uid"
    and "validation_rejects env
     (ValidateParamsWithJoi (JObj ((own_props body')(''updatedBy'' \<mapsto> uid)))
        UpdateSchemaKeys) m"
  shows "partialUpdateMetal env req =
     ([Call (ValidateParamsWithJoi (JObj ((own_props body')(''updatedBy'' \<mapsto> uid)))
         UpdateSchemaKeys),
       Respond (ValidationError (Template ''Invalid values in parameters, '' m))], Inr ())"
  using assms(5)
  by (elim validation_rejectsD)
    (simp add: partialUpdateMetal_def partialUpdateMetal_try_def try_catch_def perform_def
      respond_def Let_def assms(1-4))

lemma bulkInsertMetal_no_validation:
  "calls_satisfy (\<lambda>c. \<not> is_validation_call c) (bulkInsertMetal env req)"
  unfolding bulkInsertMetal_def bulkInsertMetal_try_def Let_def
  by (intro calls_satisfy_intros) (simp_all add: is_validation_call_def)

lemma bulkUpdateMetal_no_validation:
  "calls_satisfy (\<lambda>c. \<not> is_validation_call c) (bulkUpdateMetal env req)"
  unfolding bulkUpdateMetal_def bulkUpdateMetal_try_def Let_def
  by (intro calls_satisfy_intros) (simp_all add: is_validation_call_def)

text \<open>
  Claim C1, as the code has it. In \<^verbatim>\<open>addMetal\<close>, \<^verbatim>\<open>updateMetal\<close>, \<^verbatim>\<open>partialUpdateMetal\<close>
  (with a route id), \<^verbatim>\<open>findAllMetal\<close> and \<^verbatim>\<open>getMetalCount\<close>, when the validation of the
  payload fails, the handler does nothing but that validation call and the
  \<^verbatim>\<open>validationError\<close> response: no \<^verbatim>\<open>dbService\<close> or \<^verbatim>\<open>deleteDependentService\<close> call is
  made. \<^verbatim>\<open>bulkInsertMetal\<close> and \<^verbatim>\<open>bulkUpdateMetal\<close> never call the validation.
\<close>

theorem schema_rejection_before_persistence:
  "(validation_rejects env
      (ValidateParamsWithJoi (JObj (own_props (or_else (body req) (JObj Map.empty)))) SchemaKeys) m
    \<longrightarrow> addMetal env req =
      ([Call (ValidateParamsWithJoi (JObj (own_props (or_else (body req) (JObj Map.empty))))
          SchemaKeys),
        Respond (ValidationError (Template ''Invalid values in parameters, '' m))], Inr ())) \<and>
   (get_prop (user req) ''id'' = Inr uid \<and>
    validation_rejects env
      (ValidateParamsWithJoi (JObj ((own_props (body req))(''updatedBy'' \<mapsto> uid)))
         UpdateSchemaKeys) m
    \<longrightarrow> updateMetal env req =
      ([Call (ValidateParamsWithJoi (JObj ((own_props (body req))(''updatedBy'' \<mapsto> uid)))
          UpdateSchemaKeys),
        Respond (ValidationError (Template ''Invalid values in parameters, '' m))], Inr ())) \<and>
   (get_prop (params req) ''id'' = Inr pid \<and> truthy pid \<and>
    delete_prop (body req) ''addedBy'' = Inr body' \<and>
    get_prop (user req) ''id'' = Inr uid \<and>
    validation_rejects env
      (ValidateParamsWithJoi (JObj ((own_props body')(''updatedBy'' \<mapsto> uid)))
         UpdateSchemaKeys) m
    \<longrightarrow> partialUpdateMetal env req =
      ([Call (ValidateParamsWithJoi (JObj ((own_props body')(''updatedBy'' \<mapsto> uid)))
          UpdateSchemaKeys),
        Respond (ValidationError (Template ''Invalid values in parameters, '' m))], Inr ())) \<and>
   (validation_rejects env
      (ValidateFilterWithJoi (body req) FindFilterKeys (Some MetalSchemaObj)) m
    \<longrightarrow> findAllMetal env req =
      ([Call (ValidateFilterWithJoi (body req) FindFilterKeys (Some MetalSchemaObj)),
        Respond (ValidationError (Template [] m))], Inr ())) \<and>
   (validation_rejects env (ValidateFilterWithJoi (body req) FindFilterKeys None) m
    \<longrightarrow> getMetalCount env req =
      ([Call (ValidateFilterWithJoi (body req) FindFilterKeys None),
        Respond (ValidationError (Template [] m))], Inr ())) \<and>
   (\<forall>c \<in> set (calls (bulkInsertMetal env req)). \<not> is_validation_call c) \<and>
   (\<forall>c \<in> set (calls (bulkUpdateMetal env req)). \<not> is_validation_call c)"
  using addMetal_rejects [of env req m] updateMetal_rejects [of req uid env m]
    partialUpdateMetal_rejects [of req pid body' uid env m]
    findAllMetal_rejects [of env req m] getMetalCount_rejects [of env req m]
    bulkInsertMetal_no_validation [of env req] bulkUpdateMetal_no_validation [of env req]
  by (simp add: calls_satisfy_iff)

text \<open>The theorem in a world whose validation rejects every payload.\<close>

theorem schema_rejection_before_persistence_witness:
  "validation_rejects rejecting_world
      (ValidateParamsWithJoi
         (JObj (own_props (or_else (body update_request) (JObj Map.empty)))) SchemaKeys)
      (JStr ''name is required'') \<and>
   addMetal rejecting_world update_request =
      ([Call (ValidateParamsWithJoi
                (JObj (own_props (or_else (body update_request) (JObj Map.empty)))) SchemaKeys),
        Respond (ValidationError
          (Template ''Invalid values in parameters, '' (JStr ''name is required'')))], Inr ()) \<and>
   persistence_calls (addMetal rejecting_world update_request) = [] \<and>
   persistence_calls (updateMetal rejecting_world update_request) = [] \<and>
   responses (updateMetal rejecting_world update_request) =
      [ValidationError (Template ''Invalid values in parameters, '' (JStr ''name is required''))] \<and>
   persistence_calls (partialUpdateMetal rejecting_world update_request) = [] \<and>
   responses (partialUpdateMetal rejecting_world update_request) =
      [ValidationError (Template ''Invalid values in parameters, '' (JStr ''name is required''))] \<and>
   persistence_calls (findAllMetal rejecting_world update_request) = [] \<and>
   responses (findAllMetal rejecting_world update_request) =
      [ValidationError (Template [] (JStr ''name is required''))] \<and>
   persistence_calls (getMetalCount rejecting_world update_request) = [] \<and>
   responses (getMetalCount rejecting_world update_request) =
      [ValidationError (Template [] (JStr ''name is required''))] \<and>
   calls (bulkInsertMetal rejecting_world bulk_request) =
      [Db_create (JArr [JObj [''addedBy'' \<mapsto> JStr ''u1'']])]"
proof -
  have rej: "validation_rejects rejecting_world (ValidateParamsWithJoi d k)
      (JStr ''name is required'')"
    "validation_rejects rejecting_world (ValidateFilterWithJoi d k s)
      (JStr ''name is required'')" for d k s
    by (simp_all add: validation_rejects_def rejecting_world_def or_undefined_def)
  have uid: "get_prop (user update_request) ''id'' = Inr (JStr ''u1'')"
    by (simp add: update_request_def or_undefined_def)
  have pid: "get_prop (params update_request) ''id'' = Inr (JStr ''507f1f77bcf86cd799439011'')"
    by (simp add: update_request_def or_undefined_def)
  have blk: "calls (bulkInsertMetal rejecting_world bulk_request) =
      [Db_create (JArr [JObj [''addedBy'' \<mapsto> JStr ''u1'']])]"
    by (simp add: rejecting_world_def bulk_request_def bulkInsertMetal_def
        bulkInsertMetal_try_def try_catch_def perform_def respond_def Let_def
        bulkInsert_loop.simps or_else_def or_undefined_def)
  have del: "delete_prop (body update_request) ''addedBy'' =
      Inr (JObj [''name'' \<mapsto> JStr ''gold''])"
    by (simp add: update_request_def)
  show ?thesis
    using schema_rejection_before_persistence
      [of rejecting_world update_request "JStr ''name is required''" "JStr ''u1''"
        "JStr ''507f1f77bcf86cd799439011''" "JObj [''name'' \<mapsto> JStr ''gold'']"]
      schema_rejection_before_persistence
      [of rejecting_world bulk_request "JStr ''name is required''" "JStr ''u1''"
        "JStr ''507f1f77bcf86cd799439011''" "JObj [''name'' \<mapsto> JStr ''gold'']"]
      rej uid pid del blk
    by (simp add: persistence_calls_def)
qed

text \<open>
  Claim C1 as stated fails for \<^verbatim>\<open>bulkInsertMetal\<close>: in a world whose schema validation
  rejects the element of \<^verbatim>\<open>req.body.data\<close>, the handler still hands it to
  \<^verbatim>\<open>dbService.create\<close> and responds with success.
\<close>

theorem bulkInsertMetal_skips_validation:
  "rejecting_world (ValidateParamsWithJoi (JObj Map.empty) SchemaKeys) =
     Inr (JObj [''isValid'' \<mapsto> JBool False, ''message'' \<mapsto> JStr ''name is required'']) \<and>
   bulkInsertMetal rejecting_world bulk_request =
     ([Call (Db_create (JArr [JObj [''addedBy'' \<mapsto> JStr ''u1'']])),
       Respond (Success (JObj [''count'' \<mapsto> JNum 1]))], Inr ())"
  by (simp add: rejecting_world_def bulk_request_def bulkInsertMetal_def bulkInsertMetal_try_def
      try_catch_def perform_def respond_def Let_def bulkInsert_loop.simps or_else_def
      or_undefined_def)

subsection \<open>Object identifiers\<close>












subsection \<open>Bulk arrays\<close>









subsection \<open>Lookups\<close>

lemma validation_acceptsD:
  assumes "validation_accepts env c"
  obtains v b where "env c = Inr v" "get_prop v ''isValid'' = Inr b" "truthy b"
  using assms by (auto simp: validation_accepts_def split: sum.splits)

lemma getMetal_lookup:
  assumes "get_prop (params req) ''id'' = Inr pid" "env (ObjectId_isValid pid) = Inr valid"
    "truthy valid" "env (Db_findOne (JObj [''_id'' \<mapsto> pid]) (JObj Map.empty)) = Inr found"
  shows "getMetal env req =
     ([Call (ObjectId_isValid pid), Call (Db_findOne (JObj [''_id'' \<mapsto> pid]) (JObj Map.empty)),
       Respond (if truthy found then Success found else RecordNotFound)], Inr ())"
  using assms by (simp add: getMetal_def getMetal_try_def run_defs)

lemma findAllMetal_lookup:
  assumes v: "validation_accepts env
       (ValidateFilterWithJoi (body req) FindFilterKeys (Some MetalSchemaObj))"
    and q: "get_prop (body req) ''query'' = Inr q"
    and co: "get_prop (body req) ''isCountOnly'' = Inr isCountOnly" "\<not> truthy isCountOnly"
    and opts: "get_prop (body req) ''options'' = Inr opts"
    and found: "env (Db_paginate (if is_object q then JObj (own_props q) else JObj Map.empty)
         (if truthy (body req) \<and> is_object opts then JObj (own_props opts) else JObj Map.empty))
       = Inr found"
  shows "(\<not> truthy found \<longrightarrow> responses (findAllMetal env req) = [RecordNotFound]) \<and>
    (\<forall>d. get_prop found ''data'' = Inr d \<and> (d = JUndefined \<or> d = JNull \<or> d = JArr [])
       \<longrightarrow> responses (findAllMetal env req) = [RecordNotFound]) \<and>
    (\<forall>x xs. truthy found \<and> get_prop found ''data'' = Inr (JArr (x # xs))
       \<longrightarrow> responses (findAllMetal env req) = [Success found])"
  using v
proof (rule validation_acceptsD)
  fix val b
  assume a: "env (ValidateFilterWithJoi (body req) FindFilterKeys (Some MetalSchemaObj)) = Inr val"
    "get_prop val ''isValid'' = Inr b" "truthy b"
  have f: "\<not> truthy found \<Longrightarrow> responses (findAllMetal env req) = [RecordNotFound]"
    using a q co opts found
    by (auto simp: findAllMetal_def findAllMetal_try_def run_defs split: if_splits)
  have t: "responses (findAllMetal env req) =
      [if \<not> truthy d \<or> \<not> truthy l then RecordNotFound else Success found]"
    if "truthy found" "get_prop found ''data'' = Inr d"
      "(if truthy d then get_prop d ''length'' else Inr JUndefined) = Inr l" for d l
    using a q co opts found that
    by (auto simp: findAllMetal_def findAllMetal_try_def run_defs split: if_splits)
  show ?thesis
  proof (intro conjI allI impI)
    assume "\<not> truthy found" then show "responses (findAllMetal env req) = [RecordNotFound]"
      by (rule f)
  next
    fix d assume d: "get_prop found ''data'' = Inr d \<and> (d = JUndefined \<or> d = JNull \<or> d = JArr [])"
    show "responses (findAllMetal env req) = [RecordNotFound]"
    proof (cases "truthy found")
      case False then show ?thesis by (rule f)
    next
      case True
      from d have "(if truthy d then get_prop d ''length'' else Inr JUndefined) =
          Inr (if d = JArr [] then JNum 0 else JUndefined)"
        by auto
      from t [OF True conjunct1 [OF d] this] d show ?thesis by auto
    qed
  next
    fix x xs assume h: "truthy found \<and> get_prop found ''data'' = Inr (JArr (x # xs))"
    have "(if truthy (JArr (x # xs)) then get_prop (JArr (x # xs)) ''length'' else Inr JUndefined) =
        Inr (JNum (int (length (x # xs))))"
      by simp
    from t [OF conjunct1 [OF h] conjunct2 [OF h] this]
    show "responses (findAllMetal env req) = [Success found]" by simp
  qed
qed

text \<open>
  Claim C5. \<^verbatim>\<open>getMetal\<close> with an id that \<^verbatim>\<open>ObjectId.isValid\<close> accepts responds
  \<^verbatim>\<open>recordNotFound\<close> when \<^verbatim>\<open>dbService.findOne\<close> returns a falsy value and \<^verbatim>\<open>success\<close> with
  the document otherwise. \<^verbatim>\<open>findAllMetal\<close> with a filter that passes validation and
  \<^verbatim>\<open>isCountOnly\<close> falsy responds \<^verbatim>\<open>recordNotFound\<close> when \<^verbatim>\<open>dbService.paginate\<close> returns a
  falsy value or a result whose \<^verbatim>\<open>data\<close> is absent or an empty list, and \<^verbatim>\<open>success\<close> with
  the result when \<^verbatim>\<open>data\<close> is a list with an element. The two responses are different.
\<close>

theorem not_found_lookup:
  "(get_prop (params req) ''id'' = Inr pid \<and> env (ObjectId_isValid pid) = Inr valid \<and>
    truthy valid \<and> env (Db_findOne (JObj [''_id'' \<mapsto> pid]) (JObj Map.empty)) = Inr found
    \<longrightarrow> responses (getMetal env req) =
          [if truthy found then Success found else RecordNotFound]) \<and>
   (validation_accepts env
      (ValidateFilterWithJoi (body req) FindFilterKeys (Some MetalSchemaObj)) \<and>
    get_prop (body req) ''query'' = Inr q \<and>
    get_prop (body req) ''isCountOnly'' = Inr isCountOnly \<and> \<not> truthy isCountOnly \<and>
    get_prop (body req) ''options'' = Inr opts \<and>
    env (Db_paginate (if is_object q then JObj (own_props q) else JObj Map.empty)
         (if truthy (body req) \<and> is_object opts then JObj (own_props opts) else JObj Map.empty))
      = Inr page
    \<longrightarrow> (\<not> truthy page \<longrightarrow> responses (findAllMetal env req) = [RecordNotFound]) \<and>
        (\<forall>d. get_prop page ''data'' = Inr d \<and> (d = JUndefined \<or> d = JNull \<or> d = JArr [])
           \<longrightarrow> responses (findAllMetal env req) = [RecordNotFound]) \<and>
        (\<forall>x xs. truthy page \<and> get_prop page ''data'' = Inr (JArr (x # xs))
           \<longrightarrow> responses (findAllMetal env req) = [Success page])) \<and>
   (\<forall>d. RecordNotFound \<noteq> Success d)"
  using getMetal_lookup [of req pid env valid found]
    findAllMetal_lookup [of env req q isCountOnly opts page]
  by simp

text \<open>
  The theorem in a world whose database finds nothing and in one whose database finds a
  document.
\<close>

theorem not_found_lookup_witness:
  "get_prop (params find_request) ''id'' = Inr (JStr ''507f1f77bcf86cd799439011'') \<and>
   empty_db_world (ObjectId_isValid (JStr ''507f1f77bcf86cd799439011'')) = Inr (JBool True) \<and>
   empty_db_world (Db_findOne (JObj [''_id'' \<mapsto> JStr ''507f1f77bcf86cd799439011''])
      (JObj Map.empty)) = Inr JNull \<and>
   responses (getMetal empty_db_world find_request) = [RecordNotFound] \<and>
   responses (getMetal accepting_world find_request) =
      [Success (JObj [''name'' \<mapsto> JStr ''gold''])] \<and>
   validation_accepts empty_db_world
      (ValidateFilterWithJoi (body find_request) FindFilterKeys (Some MetalSchemaObj)) \<and>
   get_prop (body find_request) ''isCountOnly'' = Inr JUndefined \<and>
   responses (findAllMetal empty_db_world find_request) = [RecordNotFound] \<and>
   responses (findAllMetal accepting_world find_request) =
      [Success (JObj [''data'' \<mapsto> JArr [JObj [''name'' \<mapsto> JStr ''gold'']]])]"
proof -
  have p: "get_prop (params find_request) ''id'' = Inr (JStr ''507f1f77bcf86cd799439011'')"
    and q: "get_prop (body find_request) ''query'' = Inr (JObj [''name'' \<mapsto> JStr ''gold''])"
    and c: "get_prop (body find_request) ''isCountOnly'' = Inr JUndefined"
    and o: "get_prop (body find_request) ''options'' = Inr JUndefined"
    by (simp_all add: find_request_def or_undefined_def)
  have e: "empty_db_world (ObjectId_isValid (JStr ''507f1f77bcf86cd799439011'')) = Inr (JBool True)"
    "empty_db_world (Db_findOne q' o') = Inr JNull"
    "empty_db_world (Db_paginate q' o') = Inr (JObj [''data'' \<mapsto> JArr []])"
    "validation_accepts empty_db_world (ValidateFilterWithJoi d k s)" for q' o' d k s
    by (simp_all add: empty_db_world_def accepting_world_def validation_accepts_def
        or_undefined_def)
  have a: "accepting_world (ObjectId_isValid (JStr ''507f1f77bcf86cd799439011'')) = Inr (JBool True)"
    "accepting_world (Db_findOne q' o') = Inr (JObj [''name'' \<mapsto> JStr ''gold''])"
    "accepting_world (Db_paginate q' o') =
       Inr (JObj [''data'' \<mapsto> JArr [JObj [''name'' \<mapsto> JStr ''gold'']]])"
    "validation_accepts accepting_world (ValidateFilterWithJoi d k s)" for q' o' d k s
    by (simp_all add: accepting_world_def validation_accepts_def or_undefined_def)
  have d: "get_prop (JObj [''data'' \<mapsto> v]) ''data'' = Inr v" for v
    by (simp add: or_undefined_def)
  show ?thesis
    using not_found_lookup [where req = find_request and env = empty_db_world
        and pid = "JStr ''507f1f77bcf86cd799439011''" and valid = "JBool True" and found = JNull
        and q = "JObj [''name'' \<mapsto> JStr ''gold'']" and isCountOnly = JUndefined
        and opts = JUndefined and page = "JObj [''data'' \<mapsto> JArr []]"]
      not_found_lookup [where req = find_request and env = accepting_world
        and pid = "JStr ''507f1f77bcf86cd799439011''" and valid = "JBool True"
        and found = "JObj [''name'' \<mapsto> JStr ''gold'']"
        and q = "JObj [''name'' \<mapsto> JStr ''gold'']" and isCountOnly = JUndefined
        and opts = JUndefined
        and page = "JObj [''data'' \<mapsto> JArr [JObj [''name'' \<mapsto> JStr ''gold'']]]"]
      p q c o e a d
    by simp
qed

subsection \<open>The dependency warning\<close>

lemma deleteMetal_warning:
  assumes "get_prop (params req) ''id'' = Inr pid" "truthy pid"
    "get_prop (body req) ''isWarning'' = Inr isWarning" "truthy isWarning"
  shows "calls (deleteMetal env req) = [Dep_countMetal (JObj [''_id'' \<mapsto> pid])]"
    and "responses (deleteMetal env req) =
      [case env (Dep_countMetal (JObj [''_id'' \<mapsto> pid])) of
         Inl error \<Rightarrow> InternalServerError (message error)
       | Inr n \<Rightarrow> if truthy n then Success n else RecordNotFound]"
  using assms
  by (cases "env (Dep_countMetal (JObj [''_id'' \<mapsto> pid]))";
      simp add: deleteMetal_def deleteMetal_try_def run_defs)+

lemma nonempty_array_guard:
  "nonempty_array ids \<Longrightarrow>
   truthy ids \<and> isArray ids \<and> (\<exists>n. get_prop ids ''length'' = Inr (JNum n) \<and> \<not> n < 1)"
  by (cases ids) (auto simp: neq_Nil_conv)

lemma deleteManyMetal_warning:
  assumes "get_prop (body req) ''ids'' = Inr ids" "nonempty_array ids"
    "get_prop (body req) ''isWarning'' = Inr isWarning" "truthy isWarning"
  shows "calls (deleteManyMetal env req) =
      [Dep_countMetal (JObj [''_id'' \<mapsto> JObj [''$in'' \<mapsto> ids]])]"
    and "responses (deleteManyMetal env req) =
      [case env (Dep_countMetal (JObj [''_id'' \<mapsto> JObj [''$in'' \<mapsto> ids]])) of
         Inl error \<Rightarrow> InternalServerError (message error)
       | Inr n \<Rightarrow> if truthy n then Success n else RecordNotFound]"
  using assms nonempty_array_guard [of ids]
  by (cases "env (Dep_countMetal (JObj [''_id'' \<mapsto> JObj [''$in'' \<mapsto> ids]]))";
      auto simp add: deleteManyMetal_def deleteManyMetal_try_def run_defs)+

text \<open>
  Claim C6, as the code has it. \<^verbatim>\<open>deleteMetal\<close> (with a route id) and
  \<^verbatim>\<open>deleteManyMetal\<close> (with a non-empty \<^verbatim>\<open>ids\<close>), when \<^verbatim>\<open>req.body.isWarning\<close> is truthy,
  call \<^verbatim>\<open>deleteDependentService.countMetal\<close> and nothing else, so \<^verbatim>\<open>deleteMetal\<close> of that
  service is never called. The response is \<^verbatim>\<open>success\<close> with the count when the count is
  truthy, \<^verbatim>\<open>recordNotFound\<close> when it is falsy, \<^verbatim>\<open>internalServerError\<close> when the call
  throws.
\<close>

theorem warning_only_counts:
  "(get_prop (params req) ''id'' = Inr pid \<and> truthy pid \<and>
    get_prop (body req) ''isWarning'' = Inr isWarning \<and> truthy isWarning
    \<longrightarrow> calls (deleteMetal env req) = [Dep_countMetal (JObj [''_id'' \<mapsto> pid])] \<and>
        responses (deleteMetal env req) =
          [case env (Dep_countMetal (JObj [''_id'' \<mapsto> pid])) of
             Inl error \<Rightarrow> InternalServerError (message error)
           | Inr n \<Rightarrow> if truthy n then Success n else RecordNotFound]) \<and>
   (get_prop (body req) ''ids'' = Inr ids \<and> nonempty_array ids \<and>
    get_prop (body req) ''isWarning'' = Inr isWarning \<and> truthy isWarning
    \<longrightarrow> calls (deleteManyMetal env req) =
          [Dep_countMetal (JObj [''_id'' \<mapsto> JObj [''$in'' \<mapsto> ids]])] \<and>
        responses (deleteManyMetal env req) =
          [case env (Dep_countMetal (JObj [''_id'' \<mapsto> JObj [''$in'' \<mapsto> ids]])) of
             Inl error \<Rightarrow> InternalServerError (message error)
           | Inr n \<Rightarrow> if truthy n then Success n else RecordNotFound])"
  using deleteMetal_warning [of req pid isWarning env]
    deleteManyMetal_warning [of req ids isWarning env]
  by simp

text \<open>
  The theorem at a request with \<^verbatim>\<open>isWarning: true\<close>.
\<close>

theorem warning_only_counts_witness:
  "get_prop (params warning_request) ''id'' = Inr (JStr ''507f1f77bcf86cd799439011'') \<and>
   get_prop (body warning_request) ''isWarning'' = Inr (JBool True) \<and>
   get_prop (body warning_request) ''ids'' = Inr (JArr [JStr ''507f1f77bcf86cd799439011'']) \<and>
   calls (deleteMetal accepting_world warning_request) =
     [Dep_countMetal (JObj [''_id'' \<mapsto> JStr ''507f1f77bcf86cd799439011''])] \<and>
   responses (deleteMetal accepting_world warning_request) =
     [Success (JObj [''metal'' \<mapsto> JNum 1])] \<and>
   calls (deleteManyMetal accepting_world warning_request) =
     [Dep_countMetal
        (JObj [''_id'' \<mapsto> JObj [''$in'' \<mapsto> JArr [JStr ''507f1f77bcf86cd799439011'']]])] \<and>
   responses (deleteManyMetal accepting_world warning_request) =
     [Success (JObj [''metal'' \<mapsto> JNum 1])]"
proof -
  have r: "get_prop (params warning_request) ''id'' = Inr (JStr ''507f1f77bcf86cd799439011'')"
    "get_prop (body warning_request) ''isWarning'' = Inr (JBool True)"
    "get_prop (body warning_request) ''ids'' = Inr (JArr [JStr ''507f1f77bcf86cd799439011''])"
    by (simp_all add: warning_request_def or_undefined_def)
  have a: "accepting_world (Dep_countMetal q) = Inr (JObj [''metal'' \<mapsto> JNum 1])" for q
    by (simp add: accepting_world_def)
  show ?thesis
    using warning_only_counts [where req = warning_request and env = accepting_world
        and pid = "JStr ''507f1f77bcf86cd799439011''" and isWarning = "JBool True"
        and ids = "JArr [JStr ''507f1f77bcf86cd799439011'']"] r a
    by simp
qed

text \<open>
  Claim C6 as stated fails when the dependency count is falsy: \<^verbatim>\<open>deleteMetal\<close> with
  \<^verbatim>\<open>isWarning: true\<close> and a count of 0 responds \<^verbatim>\<open>recordNotFound\<close>, not \<^verbatim>\<open>success\<close>.
\<close>

theorem warning_without_dependents_is_recordNotFound:
  "get_prop (body warning_request) ''isWarning'' = Inr (JBool True) \<and>
   no_dependents_world (Dep_countMetal (JObj [''_id'' \<mapsto> JStr ''507f1f77bcf86cd799439011'']))
     = Inr (JNum 0) \<and>
   deleteMetal no_dependents_world warning_request =
     ([Call (Dep_countMetal (JObj [''_id'' \<mapsto> JStr ''507f1f77bcf86cd799439011''])),
       Respond RecordNotFound], Inr ())"
  by (simp add: warning_request_def no_dependents_world_def deleteMetal_def deleteMetal_try_def
      run_defs or_undefined_def)

subsection \<open>Count only\<close>

lemma findAllMetal_count_only:
  assumes v: "validation_accepts env
       (ValidateFilterWithJoi (body req) FindFilterKeys (Some MetalSchemaObj))"
    and q: "get_prop (body req) ''query'' = Inr q"
    and co: "get_prop (body req) ''isCountOnly'' = Inr isCountOnly" "truthy isCountOnly"
  shows "calls (findAllMetal env req) =
      [ValidateFilterWithJoi (body req) FindFilterKeys (Some MetalSchemaObj),
       Db_count (if is_object q then JObj (own_props q) else JObj Map.empty)]"
    and "responses (findAllMetal env req) =
      [case env (Db_count (if is_object q then JObj (own_props q) else JObj Map.empty)) of
         Inl error \<Rightarrow> InternalServerError (message error)
       | Inr totalRecords \<Rightarrow> Success (JObj [''totalRecords'' \<mapsto> totalRecords])]"
  using v q co
  by (cases "env (Db_count (if is_object q then JObj (own_props q) else JObj Map.empty))";
      elim validation_acceptsD;
      auto simp add: findAllMetal_def findAllMetal_try_def run_defs split: if_splits)+

lemma findAllMetal_paginated:
  assumes v: "validation_accepts env
       (ValidateFilterWithJoi (body req) FindFilterKeys (Some MetalSchemaObj))"
    and q: "get_prop (body req) ''query'' = Inr q"
    and co: "get_prop (body req) ''isCountOnly'' = Inr isCountOnly" "\<not> truthy isCountOnly"
    and opts: "get_prop (body req) ''options'' = Inr opts"
  shows "calls (findAllMetal env req) =
      [ValidateFilterWithJoi (body req) FindFilterKeys (Some MetalSchemaObj),
       Db_paginate (if is_object q then JObj (own_props q) else JObj Map.empty)
         (if truthy (body req) \<and> is_object opts then JObj (own_props opts)
          else JObj Map.empty)]"
proof -
  let ?paginate = "Db_paginate (if is_object q then JObj (own_props q) else JObj Map.empty)
         (if truthy (body req) \<and> is_object opts then JObj (own_props opts)
          else JObj Map.empty)"
  from v obtain val b
    where a: "env (ValidateFilterWithJoi (body req) FindFilterKeys (Some MetalSchemaObj)) = Inr val"
      "get_prop val ''isValid'' = Inr b" "truthy b"
    by (rule validation_acceptsD)
  show ?thesis
  proof (cases "env ?paginate")
    case (Inl e)
    with a q co opts show ?thesis
      by (auto simp add: findAllMetal_def findAllMetal_try_def run_defs split: if_splits)
  next
    case (Inr page)
    have "\<exists>d. (if truthy page then get_prop page ''data'' else Inr JUndefined) = Inr d"
      by (cases page) auto
    then obtain d
      where d: "(if truthy page then get_prop page ''data'' else Inr JUndefined) = Inr d" ..
    have "\<exists>l. (if truthy page \<and> truthy d then get_prop d ''length'' else Inr JUndefined) = Inr l"
      by (cases d) auto
    then obtain l
      where l: "(if truthy page \<and> truthy d then get_prop d ''length'' else Inr JUndefined) = Inr l"
      ..
    from a q co opts Inr d l show ?thesis
      by (auto simp add: findAllMetal_def findAllMetal_try_def run_defs lift_def andThen_def
          split: if_splits)
  qed
qed

text \<open>
  Claim C7. For a request to \<^verbatim>\<open>findAllMetal\<close> whose filter passes validation: when
  \<^verbatim>\<open>req.body.isCountOnly\<close> is truthy the handler calls \<^verbatim>\<open>dbService.count\<close> with the
  request's query and no other database function, and responds \<^verbatim>\<open>success\<close> with
  \<^verbatim>\<open>{ totalRecords }\<close>, the value the count returned; when it is falsy the handler calls
  \<^verbatim>\<open>dbService.paginate\<close> with the query and the options, and never \<^verbatim>\<open>dbService.count\<close>.
\<close>

theorem count_only_or_paginated:
  "validation_accepts env
      (ValidateFilterWithJoi (body req) FindFilterKeys (Some MetalSchemaObj)) \<and>
   get_prop (body req) ''query'' = Inr q \<and>
   get_prop (body req) ''isCountOnly'' = Inr isCountOnly
   \<longrightarrow>
   (truthy isCountOnly
    \<longrightarrow> calls (findAllMetal env req) =
          [ValidateFilterWithJoi (body req) FindFilterKeys (Some MetalSchemaObj),
           Db_count (if is_object q then JObj (own_props q) else JObj Map.empty)] \<and>
        responses (findAllMetal env req) =
          [case env (Db_count (if is_object q then JObj (own_props q) else JObj Map.empty)) of
             Inl error \<Rightarrow> InternalServerError (message error)
           | Inr totalRecords \<Rightarrow> Success (JObj [''totalRecords'' \<mapsto> totalRecords])]) \<and>
   (\<not> truthy isCountOnly \<and> get_prop (body req) ''options'' = Inr opts
    \<longrightarrow> calls (findAllMetal env req) =
          [ValidateFilterWithJoi (body req) FindFilterKeys (Some MetalSchemaObj),
           Db_paginate (if is_object q then JObj (own_props q) else JObj Map.empty)
             (if truthy (body req) \<and> is_object opts then JObj (own_props opts)
              else JObj Map.empty)])"
  using findAllMetal_count_only [of env req q isCountOnly]
    findAllMetal_paginated [of env req q isCountOnly opts]
  by simp

text \<open>
  The theorem at a count-only request and at a request without \<^verbatim>\<open>isCountOnly\<close>.
\<close>

theorem count_only_or_paginated_witness:
  "validation_accepts accepting_world
      (ValidateFilterWithJoi (body count_request) FindFilterKeys (Some MetalSchemaObj)) \<and>
   get_prop (body count_request) ''isCountOnly'' = Inr (JBool True) \<and>
   calls (findAllMetal accepting_world count_request) =
     [ValidateFilterWithJoi (body count_request) FindFilterKeys (Some MetalSchemaObj),
      Db_count (JObj [''name'' \<mapsto> JStr ''gold''])] \<and>
   responses (findAllMetal accepting_world count_request) =
     [Success (JObj [''totalRecords'' \<mapsto> JNum 2])] \<and>
   get_prop (body find_request) ''isCountOnly'' = Inr JUndefined \<and>
   calls (findAllMetal accepting_world find_request) =
     [ValidateFilterWithJoi (body find_request) FindFilterKeys (Some MetalSchemaObj),
      Db_paginate (JObj [''name'' \<mapsto> JStr ''gold'']) (JObj Map.empty)]"
proof -
  have c: "get_prop (body count_request) ''query'' = Inr (JObj [''name'' \<mapsto> JStr ''gold''])"
    "get_prop (body count_request) ''isCountOnly'' = Inr (JBool True)"
    by (simp_all add: count_request_def or_undefined_def)
  have f: "get_prop (body find_request) ''query'' = Inr (JObj [''name'' \<mapsto> JStr ''gold''])"
    "get_prop (body find_request) ''isCountOnly'' = Inr JUndefined"
    "get_prop (body find_request) ''options'' = Inr JUndefined"
    by (simp_all add: find_request_def or_undefined_def)
  have a: "validation_accepts accepting_world (ValidateFilterWithJoi d k s)"
    "accepting_world (Db_count q') = Inr (JNum 2)" for d k s q'
    by (simp_all add: accepting_world_def validation_accepts_def or_undefined_def)
  show ?thesis
    using count_only_or_paginated [where req = count_request and env = accepting_world
        and q = "JObj [''name'' \<mapsto> JStr ''gold'']" and isCountOnly = "JBool True"
        and opts = JUndefined]
      count_only_or_paginated [where req = find_request and env = accepting_world
        and q = "JObj [''name'' \<mapsto> JStr ''gold'']" and isCountOnly = JUndefined
        and opts = JUndefined]
      c f a
    by simp
qed

subsection \<open>Array indices are no field names\<close>

lemma digit_char_digit: "d < 10 \<Longrightarrow> digit_char d \<in> set ''0123456789''"
  unfolding digit_char_def by (rule nth_mem) simp

lemma index_key_digits: "set (index_key n) \<subseteq> set ''0123456789''"
proof (induction n rule: index_key.induct)
  case (1 n)
  show ?case
  proof (cases "n < 10")
    case True
    then show ?thesis
      using digit_char_digit [of n] by (simp add: index_key.simps [of n])
  next
    case False
    then show ?thesis
      using 1 digit_char_digit [of "n mod 10"] by (simp add: index_key.simps [of n])
  qed
qed

lemma index_props_alpha:
  assumes "CHR ''a'' \<in> set p \<or> CHR ''u'' \<in> set p"
  shows "index_props xs p = None"
proof -
  have "p \<noteq> index_key n" for n
    using index_key_digits [of n] assms by auto
  then have "p \<notin> set (map index_key [0..<length xs])" by auto
  then have "p \<notin> fst ` set (zip (map index_key [0..<length xs]) xs)"
    by (metis (no_types, lifting) imageE in_set_zipE prod.collapse)
  then show ?thesis
    by (simp add: index_props_def map_of_eq_None_iff)
qed

lemma delete_prop_own:
  "delete_prop b ''addedBy'' = Inr b' \<Longrightarrow> own_props b' ''addedBy'' = None"
  by (cases b) (auto simp: index_props_alpha)

subsection \<open>The author of a created document\<close>

lemma calls_satisfyD: "calls_satisfy P m \<Longrightarrow> Call c \<in> set (fst m) \<Longrightarrow> P c"
  by (simp add: calls_satisfy_def)









subsection \<open>The author in an update\<close>

lemma partialUpdateMetal_document:
  "calls_satisfy
     (\<lambda>c. \<forall>q d. c = Db_updateOne q d \<longrightarrow>
        own_props d ''addedBy'' = None \<and>
        (\<exists>uid. get_prop (user req) ''id'' = Inr uid \<and> own_props d ''updatedBy'' = Some uid))
     (partialUpdateMetal env req)"
  unfolding partialUpdateMetal_def partialUpdateMetal_try_def Let_def
  by (intro calls_satisfy_intros) (auto simp: lift_def delete_prop_own)

lemma updateMetal_document:
  assumes "own_props (body req) ''addedBy'' = Some v"
  shows "calls_satisfy (\<lambda>c. \<forall>q d. c = Db_updateOne q d \<longrightarrow> own_props d ''addedBy'' = Some v)
     (updateMetal env req)"
  unfolding updateMetal_def updateMetal_try_def Let_def
  by (intro calls_satisfy_intros) (use assms in \<open>auto simp: lift_def\<close>)

lemma bulkUpdateMetal_document:
  assumes "truthy (body req)" "get_prop (body req) ''data'' = Inr data" "is_object data"
    "own_props data ''addedBy'' = Some v"
  shows "calls_satisfy (\<lambda>c. \<forall>f d. c = Db_updateMany f d \<longrightarrow> own_props d ''addedBy'' = Some v)
     (bulkUpdateMetal env req)"
  unfolding bulkUpdateMetal_def bulkUpdateMetal_try_def Let_def
  by (intro calls_satisfy_intros)
    (use assms in \<open>auto simp: lift_def andThen_def split: sum.splits if_splits\<close>)

text \<open>
  Claim C10. Every update document \<^verbatim>\<open>partialUpdateMetal\<close> passes to
  \<^verbatim>\<open>dbService.updateOne\<close> has no \<^verbatim>\<open>addedBy\<close> field and has \<^verbatim>\<open>updatedBy\<close> equal to
  \<^verbatim>\<open>req.user.id\<close>. In \<^verbatim>\<open>updateMetal\<close> and \<^verbatim>\<open>bulkUpdateMetal\<close> an \<^verbatim>\<open>addedBy\<close> of the
  client data (\<^verbatim>\<open>req.body\<close>, \<^verbatim>\<open>req.body.data\<close>) stays in the update document.
\<close>

theorem partial_update_drops_addedBy:
  "(\<forall>q d. Call (Db_updateOne q d) \<in> set (fst (partialUpdateMetal env req)) \<longrightarrow>
      own_props d ''addedBy'' = None \<and>
      (\<exists>uid. get_prop (user req) ''id'' = Inr uid \<and> own_props d ''updatedBy'' = Some uid)) \<and>
   (own_props (body req) ''addedBy'' = Some v \<longrightarrow>
      (\<forall>q d. Call (Db_updateOne q d) \<in> set (fst (updateMetal env req)) \<longrightarrow>
         own_props d ''addedBy'' = Some v)) \<and>
   (truthy (body req) \<and> get_prop (body req) ''data'' = Inr data \<and> is_object data \<and>
    own_props data ''addedBy'' = Some v \<longrightarrow>
      (\<forall>f d. Call (Db_updateMany f d) \<in> set (fst (bulkUpdateMetal env req)) \<longrightarrow>
         own_props d ''addedBy'' = Some v))"
proof (intro conjI allI impI)
  fix q d
  assume "Call (Db_updateOne q d) \<in> set (fst (partialUpdateMetal env req))"
  from calls_satisfyD [OF partialUpdateMetal_document this]
  show "own_props d ''addedBy'' = None"
    and "\<exists>uid. get_prop (user req) ''id'' = Inr uid \<and> own_props d ''updatedBy'' = Some uid"
    by simp_all
next
  fix q d
  assume "own_props (body req) ''addedBy'' = Some v"
    and "Call (Db_updateOne q d) \<in> set (fst (updateMetal env req))"
  from calls_satisfyD [OF updateMetal_document [OF this(1)] this(2)]
  show "own_props d ''addedBy'' = Some v" by simp
next
  fix f d
  assume a: "truthy (body req) \<and> get_prop (body req) ''data'' = Inr data \<and> is_object data \<and>
      own_props data ''addedBy'' = Some v"
    and c: "Call (Db_updateMany f d) \<in> set (fst (bulkUpdateMetal env req))"
  from a have t: "truthy (body req)" and g: "get_prop (body req) ''data'' = Inr data"
    and o: "is_object data" and w: "own_props data ''addedBy'' = Some v"
    by simp_all
  from calls_satisfyD [OF bulkUpdateMetal_document [OF t g o w] c]
  show "own_props d ''addedBy'' = Some v" by simp
qed

text \<open>
  The theorem at requests whose client data says \<^verbatim>\<open>addedBy: 'intruder'\<close>.
\<close>

theorem partial_update_drops_addedBy_witness:
  "own_props (body update_request) ''addedBy'' = Some (JStr ''intruder'') \<and>
   calls (partialUpdateMetal accepting_world update_request) =
     [ValidateParamsWithJoi
        (JObj [''name'' \<mapsto> JStr ''gold'', ''updatedBy'' \<mapsto> JStr ''u1'']) UpdateSchemaKeys,
      Db_updateOne (JObj [''_id'' \<mapsto> JStr ''507f1f77bcf86cd799439011''])
        (JObj [''name'' \<mapsto> JStr ''gold'', ''updatedBy'' \<mapsto> JStr ''u1''])] \<and>
   own_props (JObj [''name'' \<mapsto> JStr ''gold'', ''updatedBy'' \<mapsto> JStr ''u1'']) ''addedBy'' = None \<and>
   calls (updateMetal accepting_world update_request) =
     [ValidateParamsWithJoi
        (JObj [''name'' \<mapsto> JStr ''gold'', ''addedBy'' \<mapsto> JStr ''intruder'',
               ''updatedBy'' \<mapsto> JStr ''u1'']) UpdateSchemaKeys,
      Db_updateOne (JObj [''_id'' \<mapsto> JStr ''507f1f77bcf86cd799439011''])
        (JObj [''name'' \<mapsto> JStr ''gold'', ''addedBy'' \<mapsto> JStr ''intruder'',
               ''updatedBy'' \<mapsto> JStr ''u1''])] \<and>
   get_prop (body bulk_update_request) ''data'' = Inr (JObj [''addedBy'' \<mapsto> JStr ''intruder'']) \<and>
   calls (bulkUpdateMetal accepting_world bulk_update_request) =
     [Db_updateMany (JObj [''name'' \<mapsto> JStr ''gold''])
        (JObj [''addedBy'' \<mapsto> JStr ''intruder'', ''updatedBy'' \<mapsto> JStr ''u1''])]"
proof -
  have a: "own_props (body update_request) ''addedBy'' = Some (JStr ''intruder'')"
    by (simp add: update_request_def)
  have b: "truthy (body bulk_update_request)"
    "get_prop (body bulk_update_request) ''data'' = Inr (JObj [''addedBy'' \<mapsto> JStr ''intruder''])"
    by (simp_all add: bulk_update_request_def or_undefined_def)
  have p: "calls (partialUpdateMetal accepting_world update_request) =
     [ValidateParamsWithJoi
        (JObj [''name'' \<mapsto> JStr ''gold'', ''updatedBy'' \<mapsto> JStr ''u1'']) UpdateSchemaKeys,
      Db_updateOne (JObj [''_id'' \<mapsto> JStr ''507f1f77bcf86cd799439011''])
        (JObj [''name'' \<mapsto> JStr ''gold'', ''updatedBy'' \<mapsto> JStr ''u1''])]"
    by (simp add: accepting_world_def update_request_def partialUpdateMetal_def
        partialUpdateMetal_try_def run_defs or_undefined_def)
  have u: "calls (updateMetal accepting_world update_request) =
     [ValidateParamsWithJoi
        (JObj [''name'' \<mapsto> JStr ''gold'', ''addedBy'' \<mapsto> JStr ''intruder'',
               ''updatedBy'' \<mapsto> JStr ''u1'']) UpdateSchemaKeys,
      Db_updateOne (JObj [''_id'' \<mapsto> JStr ''507f1f77bcf86cd799439011''])
        (JObj [''name'' \<mapsto> JStr ''gold'', ''addedBy'' \<mapsto> JStr ''intruder'',
               ''updatedBy'' \<mapsto> JStr ''u1''])]"
    by (simp add: accepting_world_def update_request_def updateMetal_def updateMetal_try_def
        run_defs or_undefined_def)
  have m: "calls (bulkUpdateMetal accepting_world bulk_update_request) =
     [Db_updateMany (JObj [''name'' \<mapsto> JStr ''gold''])
        (JObj [''addedBy'' \<mapsto> JStr ''intruder'', ''updatedBy'' \<mapsto> JStr ''u1''])]"
    by (simp add: accepting_world_def bulk_update_request_def bulkUpdateMetal_def
        bulkUpdateMetal_try_def run_defs or_undefined_def)
  show ?thesis
    using partial_update_drops_addedBy [where req = update_request and env = accepting_world
        and v = "JStr ''intruder''" and data = JUndefined]
      partial_update_drops_addedBy [where req = bulk_update_request and env = accepting_world
        and v = "JStr ''intruder''" and data = "JObj [''addedBy'' \<mapsto> JStr ''intruder'']"]
      a b p u m
    by simp
qed

end
